theory Spec2Isabelle
  imports Main
begin

section \<open>paramiko/server.py: the server-mode interface and subsystem handlers\<close>

text \<open>
  The module defines two classes. \<^verbatim>\<open>ServerInterface\<close> holds the decisions
  a server takes on the transport's primary thread; all but one of its default methods return
  a fixed value. \<^verbatim>\<open>SubsystemHandler\<close> is a \<^verbatim>\<open>threading.Thread\<close>
  whose target \<^verbatim>\<open>_run\<close> logs, calls the overridable
  \<^verbatim>\<open>start_subsystem\<close>, logs a fault of it, and calls the overridable
  \<^verbatim>\<open>finish_subsystem\<close>.

  Python statements act on a world and may raise, so a statement is a function from the world
  to an outcome and the next world. The world is the list of calls this module has made on its
  collaborators (the transport's \<^verbatim>\<open>_log\<close>, the channel's
  \<^verbatim>\<open>close\<close>), oldest first. Code that a deployment supplies (a subclass's
  methods, a registered class's constructor) is an arbitrary statement.
\<close>

subsection \<open>Values of the collaborating modules\<close>

text \<open>
  Modelled from the spec: the module \<^verbatim>\<open>common\<close>, from which the result
  codes and the log levels are imported, is not among the sources. The spec's data model gives
  the authentication outcomes and the channel-open outcomes as enumerations and the log levels as
  at least DEBUG and ERROR; the names are those the docstrings of server.py use.
\<close>

datatype auth_result = AUTH_SUCCESSFUL | AUTH_PARTIALLY_SUCCESSFUL | AUTH_FAILED

datatype open_result =
    OPEN_SUCCEEDED
  | OPEN_FAILED_ADMINISTRATIVELY_PROHIBITED
  | OPEN_FAILED_CONNECT_FAILED
  | OPEN_FAILED_UNKNOWN_CHANNEL_TYPE
  | OPEN_FAILED_RESOURCE_SHORTAGE

datatype level = DEBUG | ERROR

text \<open>
  A raised Python object. \<open>isinstance_Exception\<close> says whether it is an instance of
  the class \<^verbatim>\<open>Exception\<close>, which is what the clause
  \<^verbatim>\<open>except Exception, e\<close> tests (a string exception or an instance of a class
  outside that hierarchy is not). \<open>str\<close> is the outcome of the call
  \<^verbatim>\<open>str(e)\<close>: the string it returns, or what it raises (a
  \<^verbatim>\<open>__str__\<close> that raises, a unicode message that does not encode).
  \<open>tb_strings\<close> is the outcome of the call \<^verbatim>\<open>util.tb_strings()\<close>
  while the object is being handled: the list of lines, or what the call raises (the module
  \<^verbatim>\<open>util\<close> is not among the sources).
\<close>

datatype fault =
  Fault (isinstance_Exception: bool) (str: "fault + string") (tb_strings: "fault + string list")

text \<open>The message handed to \<^verbatim>\<open>_log\<close>: a string, or a list of lines.\<close>

datatype message = Str string | Lines "string list"

text \<open>An opaque Python value, as the registered constructor arguments are.\<close>

datatype pyobj = PyInt int | PyStr string

type_synonym pkey = string

text \<open>A reference to a class object held by the registry, written as the class's name.\<close>

type_synonym class_ref = string

datatype event = Log level message | Close int

type_synonym world = "event list"

type_synonym 'a prog = "world \<Rightarrow> (fault + 'a) \<times> world"

text \<open>
  The transport, as far as this module uses it: the registry lookup
  \<^verbatim>\<open>_get_subsystem_handler(name)\<close>, which returns a triple whose first component
  is \<^verbatim>\<open>None\<close> when nothing is registered, or raises; and the behaviour of the
  log sink, \<open>log_raises level msg\<close> being what a call of \<^verbatim>\<open>_log\<close>
  raises, if anything.
\<close>

record transport =
  get_subsystem_handler :: "string \<Rightarrow> fault + (class_ref option \<times> pyobj list \<times> (string \<times> pyobj) list)"
  log_raises :: "level \<Rightarrow> message \<Rightarrow> fault option"

text \<open>
  A channel: its id, the transport it belongs to, and what its \<^verbatim>\<open>close\<close>
  raises, if anything.
\<close>

record channel =
  get_id :: int
  get_transport :: transport
  close_raises :: "fault option"

subsection \<open>Statements\<close>

definition returns :: "'a \<Rightarrow> 'a prog" where
  "returns x = (\<lambda>w. (Inr x, w))"

definition raises :: "fault \<Rightarrow> 'a prog" where
  "raises f = (\<lambda>w. (Inl f, w))"

text \<open>The outcome of a call that touches nothing in the world.\<close>

definition result_of :: "fault + 'a \<Rightarrow> 'a prog" where
  "result_of r = (\<lambda>w. case r of Inl f \<Rightarrow> (Inl f, w) | Inr x \<Rightarrow> (Inr x, w))"

text \<open>Sequencing: a fault of the first statement skips the second.\<close>

definition and_then :: "'a prog \<Rightarrow> ('a \<Rightarrow> 'b prog) \<Rightarrow> 'b prog" where
  "and_then m k = (\<lambda>w. case m w of (Inl f, w') \<Rightarrow> (Inl f, w') | (Inr x, w') \<Rightarrow> k x w')"

text \<open>
  \<^verbatim>\<open>try: m  except Exception, e: h\<close>. Only an instance of
  \<^verbatim>\<open>Exception\<close> enters the handler; anything else raised goes on to the caller.
  A fault raised by the handler itself goes on to the caller too.
\<close>

definition try_except_Exception :: "'a prog \<Rightarrow> (fault \<Rightarrow> 'a prog) \<Rightarrow> 'a prog" where
  "try_except_Exception m h =
     (\<lambda>w. case m w of
             (Inl e, w') \<Rightarrow> if isinstance_Exception e then h e w' else (Inl e, w')
           | (Inr x, w') \<Rightarrow> (Inr x, w'))"

text \<open>\<^verbatim>\<open>try: m  except: h\<close>. The bare clause takes whatever was raised.\<close>

definition try_except :: "'a prog \<Rightarrow> 'a prog \<Rightarrow> 'a prog" where
  "try_except m h =
     (\<lambda>w. case m w of (Inl e, w') \<Rightarrow> h w' | (Inr x, w') \<Rightarrow> (Inr x, w'))"

text \<open>
  The two calls on collaborators. The call is entered in the world; then it returns or raises
  as the collaborator says.
\<close>

definition transport_log :: "transport \<Rightarrow> level \<Rightarrow> message \<Rightarrow> unit prog" where
  "transport_log t lv msg =
     (\<lambda>w. case log_raises t lv msg of
             None \<Rightarrow> (Inr (), w @ [Log lv msg])
           | Some f \<Rightarrow> (Inl f, w @ [Log lv msg]))"

definition channel_close :: "channel \<Rightarrow> unit prog" where
  "channel_close c =
     (\<lambda>w. case close_raises c of
             None \<Rightarrow> (Inr (), w @ [Close (get_id c)])
           | Some f \<Rightarrow> (Inl f, w @ [Close (get_id c)]))"

subsection \<open>ServerInterface\<close>

definition check_channel_request :: "string \<Rightarrow> int \<Rightarrow> open_result" where
  "check_channel_request kind chanid = OPEN_FAILED_ADMINISTRATIVELY_PROHIBITED"

definition get_allowed_auths :: "string \<Rightarrow> string" where
  "get_allowed_auths username = ''password''"

definition check_auth_none :: "string \<Rightarrow> auth_result" where
  "check_auth_none username = AUTH_FAILED"

definition check_auth_password :: "string \<Rightarrow> string \<Rightarrow> auth_result" where
  "check_auth_password username password = AUTH_FAILED"

definition check_auth_publickey :: "string \<Rightarrow> pkey \<Rightarrow> auth_result" where
  "check_auth_publickey username key = AUTH_FAILED"

definition check_channel_pty_request ::
  "channel \<Rightarrow> string \<Rightarrow> int \<Rightarrow> int \<Rightarrow> int \<Rightarrow> int \<Rightarrow> string \<Rightarrow> bool" where
  "check_channel_pty_request channel term width height pixelwidth pixelheight modes = False"

definition check_channel_shell_request :: "channel \<Rightarrow> bool" where
  "check_channel_shell_request channel = False"

definition check_channel_window_change_request ::
  "channel \<Rightarrow> int \<Rightarrow> int \<Rightarrow> int \<Rightarrow> int \<Rightarrow> bool" where
  "check_channel_window_change_request channel width height pixelwidth pixelheight = False"

text \<open>
  The docstring of \<^verbatim>\<open>get_allowed_auths\<close> reads its result as a comma-separated
  list of names; this is \<^verbatim>\<open>s.split(',')\<close>.
\<close>

fun split_commas :: "string \<Rightarrow> string list" where
  "split_commas [] = [[]]"
| "split_commas (c # cs) =
     (if c = CHR '','' then [] # split_commas cs
      else (case split_commas cs of [] \<Rightarrow> [[c]] | x # xs \<Rightarrow> (c # x) # xs))"

subsection \<open>SubsystemHandler\<close>

text \<open>
  A handler object: the three attributes \<^verbatim>\<open>__init__\<close> sets, and the two
  methods a subclass overrides, bound to the object. \<^verbatim>\<open>finish_subsystem\<close> takes
  no argument but \<^verbatim>\<open>self\<close>.
\<close>

record handler =
  self_channel :: channel
  self_transport :: transport
  self_name :: string
  start_subsystem :: "string \<Rightarrow> transport \<Rightarrow> channel \<Rightarrow> unit prog"
  finish_subsystem :: "unit prog"

text \<open>The body of the base class's \<^verbatim>\<open>start_subsystem\<close> is \<^verbatim>\<open>pass\<close>.\<close>

definition SubsystemHandler_start_subsystem :: "string \<Rightarrow> transport \<Rightarrow> channel \<Rightarrow> unit prog" where
  "SubsystemHandler_start_subsystem name transport channel = returns ()"

text \<open>
  The base class's \<^verbatim>\<open>finish_subsystem\<close> is
  \<^verbatim>\<open>self.__channel.close()\<close>; \<^verbatim>\<open>self\<close> enters through that
  attribute only.
\<close>

definition SubsystemHandler_finish_subsystem :: "channel \<Rightarrow> unit prog" where
  "SubsystemHandler_finish_subsystem channel = channel_close channel"

text \<open>
  \<^verbatim>\<open>__init__(self, channel, name)\<close>: the thread is created with target
  \<^verbatim>\<open>_run\<close> and not started; the channel, its transport and the name are kept.
\<close>

definition SubsystemHandler_init :: "channel \<Rightarrow> string \<Rightarrow> handler" where
  "SubsystemHandler_init channel name =
     \<lparr>self_channel = channel,
      self_transport = get_transport channel,
      self_name = name,
      start_subsystem = SubsystemHandler_start_subsystem,
      finish_subsystem = SubsystemHandler_finish_subsystem channel\<rparr>"

text \<open>
  \<^verbatim>\<open>_run(self)\<close>, the thread's target. In the except clause the arguments
  are evaluated before each call of \<^verbatim>\<open>_log\<close>: \<^verbatim>\<open>str(e)\<close>
  before the first, \<^verbatim>\<open>util.tb_strings()\<close> before the second. Either may
  raise, and nothing in the clause catches that.
\<close>

definition run :: "handler \<Rightarrow> unit prog" where
  \<open>run self =
     and_then
       (try_except_Exception
          (and_then
             (transport_log (self_transport self) DEBUG
                (Str (''Starting handler for subsystem '' @ self_name self)))
             (\<lambda>_. start_subsystem self (self_name self) (self_transport self) (self_channel self)))
          (\<lambda>e. and_then (result_of (str e))
                 (\<lambda>s. and_then
                        (transport_log (self_transport self) ERROR
                           (Str (''Exception in subsystem handler for "'' @ self_name self @ ''": '' @ s)))
                        (\<lambda>_. and_then (result_of (tb_strings e))
                               (\<lambda>ls. transport_log (self_transport self) ERROR (Lines ls))))))
       (\<lambda>_. try_except (finish_subsystem self) (returns ()))\<close>

text \<open>
  The two formatted messages \<^verbatim>\<open>_run\<close> hands to \<^verbatim>\<open>_log\<close>,
  by name; \<open>s\<close> is the string \<^verbatim>\<open>str(e)\<close> returned.
\<close>

definition starting_message :: "handler \<Rightarrow> message" where
  "starting_message self = Str (''Starting handler for subsystem '' @ self_name self)"

definition exception_message :: "handler \<Rightarrow> string \<Rightarrow> message" where
  \<open>exception_message self s =
     Str (''Exception in subsystem handler for "'' @ self_name self @ ''": '' @ s)\<close>

subsection \<open>ServerInterface.check_channel_subsystem_request\<close>

text \<open>
  What the interpreter does for the two calls whose code is outside this module: calling the
  registered class object with \<^verbatim>\<open>(channel, name, *larg, **kwarg)\<close>, which runs the
  constructor the deployment wrote, and \<^verbatim>\<open>handler.start()\<close>, the method of
  \<^verbatim>\<open>threading.Thread\<close>. Both are arbitrary statements.
\<close>

record python =
  call_class :: "class_ref \<Rightarrow> channel \<Rightarrow> string \<Rightarrow> pyobj list \<Rightarrow> (string \<times> pyobj) list \<Rightarrow> handler prog"
  thread_start :: "handler \<Rightarrow> unit prog"

definition check_channel_subsystem_request :: "python \<Rightarrow> channel \<Rightarrow> string \<Rightarrow> bool prog" where
  "check_channel_subsystem_request py channel name =
     (\<lambda>w. case get_subsystem_handler (get_transport channel) name of
             Inl f \<Rightarrow> (Inl f, w)
           | Inr (handler_class, larg, kwarg) \<Rightarrow>
               (case handler_class of
                  None \<Rightarrow> returns False w
                | Some cls \<Rightarrow>
                    and_then (call_class py cls channel name larg kwarg)
                      (\<lambda>handler. and_then (thread_start py handler) (\<lambda>_. returns True)) w))"

text \<open>How often \<^verbatim>\<open>close\<close> has been called on the channel with a given id.\<close>

definition close_calls :: "channel \<Rightarrow> world \<Rightarrow> nat" where
  "close_calls c w = length (filter (\<lambda>ev. ev = Close (get_id c)) w)"

subsection \<open>Sample objects\<close>

text \<open>
  Concrete faults, a transport with a small registry, a channel on it, a handler whose
  \<^verbatim>\<open>start_subsystem\<close> raises, and an interpreter whose new thread runs its
  target to the end before \<^verbatim>\<open>start()\<close> returns; a fault of the target ends
  the thread and does not reach the caller of \<^verbatim>\<open>start()\<close>.
\<close>

definition boom :: fault where
  "boom = Fault True (Inr ''boom'')
            (Inr [''Traceback (most recent call last):'', ''ValueError: boom''])"

definition string_exception :: fault where
  "string_exception = Fault False (Inr ''done'') (Inr [])"

definition sink_error :: fault where
  "sink_error = Fault True (Inr ''No space left on device'') (Inr [])"

definition lookup_error :: fault where
  "lookup_error = Fault True (Inr ''release unlocked lock'') (Inr [])"

definition type_error :: fault where
  "type_error = Fault True (Inr ''__init__() takes exactly 3 arguments (4 given)'') (Inr [])"

definition thread_error :: fault where
  "thread_error = Fault True (Inr ''can't start new thread'') (Inr [])"

text \<open>An instance of Exception whose \<^verbatim>\<open>str\<close> raises.\<close>

definition unicode_error :: fault where
  "unicode_error = Fault True (Inr ''ascii codec can't encode character'') (Inr [])"

definition unprintable :: fault where
  "unprintable = Fault True (Inl unicode_error) (Inr [''Traceback (most recent call last):''])"

definition sample_transport :: transport where
  "sample_transport =
     \<lparr>get_subsystem_handler =
        (\<lambda>name. if name = ''sftp'' then Inr (Some ''SFTPHandler'', [], [])
                else if name = ''mp3'' then Inr (Some ''MP3Handler'', [PyInt 3], [(''rate'', PyInt 44100)])
                else if name = ''nothread'' then Inr (Some ''SFTPHandler'', [], [])
                else if name = ''locked'' then Inl lookup_error
                else Inr (None, [], [])),
      log_raises = (\<lambda>lv msg. None)\<rparr>"

definition sample_channel :: "transport \<Rightarrow> channel" where
  "sample_channel t = \<lparr>get_id = 0, get_transport = t, close_raises = None\<rparr>"

definition raising_handler :: "channel \<Rightarrow> fault \<Rightarrow> handler" where
  "raising_handler c f =
     (SubsystemHandler_init c ''sftp'')\<lparr>start_subsystem := (\<lambda>name transport channel. raises f)\<rparr>"

definition sample_python :: python where
  "sample_python =
     \<lparr>call_class =
        (\<lambda>cls channel name larg kwarg.
           if cls = ''MP3Handler'' then raises type_error
           else returns (SubsystemHandler_init channel name)),
      thread_start =
        (\<lambda>h. if self_name h = ''nothread'' then raises thread_error
             else try_except (run h) (returns ()))\<rparr>"

text \<open>
  A channel whose \<^verbatim>\<open>close\<close> raises, a transport whose log sink raises at one
  level, a handler whose body logs, then raises, and whose finalizer does nothing, and a handler
  whose body closes the channel it is given and returns.
\<close>

definition closed_error :: fault where
  "closed_error = Fault True (Inr ''Socket is closed'') (Inr [])"

definition closing_handler :: "channel \<Rightarrow> handler" where
  "closing_handler c =
     (SubsystemHandler_init c ''echo'')
       \<lparr>start_subsystem := (\<lambda>name transport channel. channel_close channel)\<rparr>"

definition stuck_channel :: "transport \<Rightarrow> channel" where
  "stuck_channel t = \<lparr>get_id = 0, get_transport = t, close_raises = Some closed_error\<rparr>"

definition deaf_transport :: "level \<Rightarrow> transport" where
  "deaf_transport bad =
     sample_transport\<lparr>log_raises := (\<lambda>lv msg. if lv = bad then Some sink_error else None)\<rparr>"

definition logging_handler :: "channel \<Rightarrow> handler" where
  "logging_handler c =
     (SubsystemHandler_init c ''mp3'')
       \<lparr>start_subsystem :=
          (\<lambda>name transport channel.
             and_then (transport_log transport DEBUG (Str ''playing'')) (\<lambda>_. raises boom)),
        finish_subsystem := returns ()\<rparr>"

section \<open>Properties\<close>

subsection \<open>The paths through the thread's target\<close>

lemmas prog_defs = returns_def raises_def result_of_def and_then_def try_except_Exception_def
  try_except_def transport_log_def channel_close_def

lemmas message_defs = starting_message_def exception_message_def

lemmas sample_defs = sample_transport_def sample_channel_def raising_handler_def
  SubsystemHandler_init_def SubsystemHandler_start_subsystem_def SubsystemHandler_finish_subsystem_def
  boom_def string_exception_def sink_error_def unicode_error_def unprintable_def

text \<open>The body returns: the except clause is skipped and the finalizer runs on the world reached.\<close>

lemma run_returned:
  assumes "log_raises (self_transport self) DEBUG (starting_message self) = None"
      and "start_subsystem self (self_name self) (self_transport self) (self_channel self)
             (w @ [Log DEBUG (starting_message self)]) = (Inr u, w1)"
  shows "run self w = (Inr (), snd (finish_subsystem self w1))"
  using assms by (simp add: run_def prog_defs message_defs split: prod.splits sum.splits)

text \<open>
  The body raises an instance of Exception, and the four calls of the except clause return.
\<close>

lemma run_raised:
  assumes "log_raises (self_transport self) DEBUG (starting_message self) = None"
      and "start_subsystem self (self_name self) (self_transport self) (self_channel self)
             (w @ [Log DEBUG (starting_message self)]) = (Inl e, w1)"
      and "isinstance_Exception e"
      and "str e = Inr s"
      and "log_raises (self_transport self) ERROR (exception_message self s) = None"
      and "tb_strings e = Inr ls"
      and "log_raises (self_transport self) ERROR (Lines ls) = None"
  shows "run self w =
           (Inr (), snd (finish_subsystem self
              (w1 @ [Log ERROR (exception_message self s), Log ERROR (Lines ls)])))"
  using assms by (simp add: run_def prog_defs message_defs split: prod.splits sum.splits)

text \<open>The first log call itself raises an instance of Exception: the body is never called.\<close>

lemma run_log_raised:
  assumes "log_raises (self_transport self) DEBUG (starting_message self) = Some e"
      and "isinstance_Exception e"
      and "str e = Inr s"
      and "log_raises (self_transport self) ERROR (exception_message self s) = None"
      and "tb_strings e = Inr ls"
      and "log_raises (self_transport self) ERROR (Lines ls) = None"
  shows "run self w =
           (Inr (), snd (finish_subsystem self
              (w @ [Log DEBUG (starting_message self), Log ERROR (exception_message self s),
                    Log ERROR (Lines ls)])))"
  using assms by (simp add: run_def prog_defs message_defs split: prod.splits sum.splits)

lemma close_calls_finish:
  "close_calls c (snd (SubsystemHandler_finish_subsystem c w)) = Suc (close_calls c w)"
  by (simp add: SubsystemHandler_finish_subsystem_def channel_close_def close_calls_def
      split: option.splits)

lemma close_calls_logs:
  "close_calls c (w @ [Log lv m, Log lv' m']) = close_calls c w"
  by (simp add: close_calls_def)

subsection \<open>The channel is closed once\<close>

text \<open>
  C1 says that every handler whose body returns or raises ends with exactly one call of
  \<^verbatim>\<open>close\<close>. Five runs from the empty world say otherwise. A body that closes
  the channel it is given and returns: two calls. A body that raises a string exception, a body
  that raises an instance of Exception whose \<^verbatim>\<open>str\<close> raises, and a body that
  raises \<open>boom\<close> on a transport whose log sink raises at level ERROR: the fault leaves
  \<^verbatim>\<open>_run\<close> and there is no call. A subclass whose
  \<^verbatim>\<open>finish_subsystem\<close> does nothing: \<^verbatim>\<open>_run\<close> returns and there
  is no call.
\<close>

theorem run_close_count_counterexample:
  "fst (run (closing_handler (sample_channel sample_transport)) []) = Inr () \<and>
   close_calls (sample_channel sample_transport)
     (snd (run (closing_handler (sample_channel sample_transport)) [])) = 2 \<and>
   fst (run (raising_handler (sample_channel sample_transport) string_exception) []) =
     Inl string_exception \<and>
   close_calls (sample_channel sample_transport)
     (snd (run (raising_handler (sample_channel sample_transport) string_exception) [])) = 0 \<and>
   fst (run (raising_handler (sample_channel sample_transport) unprintable) []) =
     Inl unicode_error \<and>
   close_calls (sample_channel sample_transport)
     (snd (run (raising_handler (sample_channel sample_transport) unprintable) [])) = 0 \<and>
   fst (run (raising_handler (sample_channel (deaf_transport ERROR)) boom) []) = Inl sink_error \<and>
   close_calls (sample_channel (deaf_transport ERROR))
     (snd (run (raising_handler (sample_channel (deaf_transport ERROR)) boom) [])) = 0 \<and>
   fst (run (logging_handler (sample_channel sample_transport)) []) = Inr () \<and>
   close_calls (sample_channel sample_transport)
     (snd (run (logging_handler (sample_channel sample_transport)) [])) = 0"
  by (simp add: run_def prog_defs sample_defs closing_handler_def logging_handler_def
      deaf_transport_def close_calls_def)

text \<open>
  C1, as the code has it. Take a handler that keeps the base class's
  \<^verbatim>\<open>finish_subsystem\<close>, whose first log call returns, and whose
  \<^verbatim>\<open>start_subsystem\<close> returns, or raises an instance of Exception for which
  \<^verbatim>\<open>str(e)\<close>, \<^verbatim>\<open>util.tb_strings()\<close> and the two log calls of
  the except clause return. Then \<^verbatim>\<open>_run\<close> returns normally, so the thread ends,
  and between the moment the body exits (world \<open>w1\<close>) and the end of
  \<^verbatim>\<open>_run\<close> the channel's \<^verbatim>\<open>close\<close> is called exactly once. When
  the body made no such call itself, that is exactly one call in the whole run.
\<close>

theorem run_closes_channel_once:
  assumes "finish_subsystem self = SubsystemHandler_finish_subsystem (self_channel self)"
      and "log_raises (self_transport self) DEBUG (starting_message self) = None"
      and "start_subsystem self (self_name self) (self_transport self) (self_channel self)
             (w @ [Log DEBUG (starting_message self)]) = (r, w1)"
      and "r = Inr () \<or>
           (\<exists>e s ls. r = Inl e \<and> isinstance_Exception e \<and>
              str e = Inr s \<and>
              log_raises (self_transport self) ERROR (exception_message self s) = None \<and>
              tb_strings e = Inr ls \<and>
              log_raises (self_transport self) ERROR (Lines ls) = None)"
  shows "fst (run self w) = Inr () \<and>
         close_calls (self_channel self) (snd (run self w)) =
           Suc (close_calls (self_channel self) w1) \<and>
         (close_calls (self_channel self) w1 = close_calls (self_channel self) w \<longrightarrow>
          close_calls (self_channel self) (snd (run self w)) =
            Suc (close_calls (self_channel self) w))"
proof -
  have "fst (run self w) = Inr () \<and>
        close_calls (self_channel self) (snd (run self w)) =
          Suc (close_calls (self_channel self) w1)"
    using assms(4)
  proof
    assume "r = Inr ()"
    with assms(2,3) have "run self w = (Inr (), snd (finish_subsystem self w1))"
      by (intro run_returned) simp_all
    with assms(1) show ?thesis by (simp add: close_calls_finish)
  next
    assume "\<exists>e s ls. r = Inl e \<and> isinstance_Exception e \<and>
              str e = Inr s \<and>
              log_raises (self_transport self) ERROR (exception_message self s) = None \<and>
              tb_strings e = Inr ls \<and>
              log_raises (self_transport self) ERROR (Lines ls) = None"
    then obtain e s ls where e: "r = Inl e" "isinstance_Exception e" "str e = Inr s"
        "log_raises (self_transport self) ERROR (exception_message self s) = None"
        "tb_strings e = Inr ls" "log_raises (self_transport self) ERROR (Lines ls) = None"
      by blast
    from assms(3) e(1)
    have b: "start_subsystem self (self_name self) (self_transport self) (self_channel self)
               (w @ [Log DEBUG (starting_message self)]) = (Inl e, w1)"
      by simp
    have "run self w =
            (Inr (), snd (finish_subsystem self
               (w1 @ [Log ERROR (exception_message self s), Log ERROR (Lines ls)])))"
      by (rule run_raised [OF assms(2) b e(2) e(3) e(4) e(5) e(6)])
    with assms(1) show ?thesis by (simp add: close_calls_finish close_calls_logs)
  qed
  then show ?thesis by simp
qed

text \<open>
  Two instances: a handler whose body raises \<open>boom\<close>, and the base class itself, whose
  body is \<^verbatim>\<open>pass\<close>. Each run from the empty world ends normally with one call of
  \<^verbatim>\<open>close\<close>.
\<close>

theorem run_closes_channel_once_witness:
  "finish_subsystem (raising_handler (sample_channel sample_transport) boom) =
     SubsystemHandler_finish_subsystem (self_channel (raising_handler (sample_channel sample_transport) boom)) \<and>
   isinstance_Exception boom \<and>
   fst (run (raising_handler (sample_channel sample_transport) boom) []) = Inr () \<and>
   close_calls (sample_channel sample_transport)
     (snd (run (raising_handler (sample_channel sample_transport) boom) [])) = 1 \<and>
   fst (run (SubsystemHandler_init (sample_channel sample_transport) ''sftp'') []) = Inr () \<and>
   close_calls (sample_channel sample_transport)
     (snd (run (SubsystemHandler_init (sample_channel sample_transport) ''sftp'') [])) = 1"
proof -
  let ?c = "sample_channel sample_transport"
  let ?h = "raising_handler ?c boom"
  let ?g = "SubsystemHandler_init ?c ''sftp''"
  let ?w1 = "[Log DEBUG (Str ''Starting handler for subsystem sftp'')]"
  note defs = sample_defs message_defs raises_def returns_def
  have h1: "finish_subsystem ?h = SubsystemHandler_finish_subsystem (self_channel ?h)"
    by (simp add: defs)
  have h2: "log_raises (self_transport ?h) DEBUG (starting_message ?h) = None"
    by (simp add: defs)
  have h3: "start_subsystem ?h (self_name ?h) (self_transport ?h) (self_channel ?h)
             ([] @ [Log DEBUG (starting_message ?h)]) = (Inl boom, ?w1)"
    by (simp add: defs)
  have h4: "Inl boom = Inr () \<or>
           (\<exists>e s ls. Inl boom = Inl e \<and> isinstance_Exception e \<and>
              str e = Inr s \<and>
              log_raises (self_transport ?h) ERROR (exception_message ?h s) = None \<and>
              tb_strings e = Inr ls \<and>
              log_raises (self_transport ?h) ERROR (Lines ls) = None)"
    by (simp add: defs)
  have h5: "isinstance_Exception boom" by (simp add: boom_def)
  have g1: "finish_subsystem ?g = SubsystemHandler_finish_subsystem (self_channel ?g)"
    by (simp add: defs)
  have g2: "log_raises (self_transport ?g) DEBUG (starting_message ?g) = None"
    by (simp add: defs)
  have g3: "start_subsystem ?g (self_name ?g) (self_transport ?g) (self_channel ?g)
             ([] @ [Log DEBUG (starting_message ?g)]) = (Inr (), ?w1)"
    by (simp add: defs)
  have c: "self_channel ?h = ?c" "self_channel ?g = ?c" "close_calls ?c ?w1 = 0"
    by (simp_all add: defs close_calls_def)
  from run_closes_channel_once [OF h1 h2 h3 h4] run_closes_channel_once [OF g1 g2 g3] h1 h5 c
  show ?thesis by simp
qed

subsection \<open>The fixed decisions of ServerInterface\<close>

text \<open>
  C5. Whatever the username, the password and the key, \<^verbatim>\<open>check_auth_none\<close>,
  \<^verbatim>\<open>check_auth_password\<close> and \<^verbatim>\<open>check_auth_publickey\<close> return
  \<^verbatim>\<open>AUTH_FAILED\<close>, and whatever the kind and the channel id,
  \<^verbatim>\<open>check_channel_request\<close> returns
  \<^verbatim>\<open>OPEN_FAILED_ADMINISTRATIVELY_PROHIBITED\<close>.
\<close>

theorem default_auth_and_open_refused:
  "check_auth_none username = AUTH_FAILED \<and>
   check_auth_password username password = AUTH_FAILED \<and>
   check_auth_publickey username key = AUTH_FAILED \<and>
   check_channel_request kind chanid = OPEN_FAILED_ADMINISTRATIVELY_PROHIBITED"
  by (simp add: check_auth_none_def check_auth_password_def check_auth_publickey_def
      check_channel_request_def)

text \<open>
  C6. Whatever the username, \<^verbatim>\<open>get_allowed_auths\<close> returns the string
  \<^verbatim>\<open>'password'\<close>, and the names in that comma-separated list are exactly
  \<^verbatim>\<open>password\<close>.
\<close>

theorem get_allowed_auths_password:
  "get_allowed_auths username = ''password'' \<and>
   set (split_commas (get_allowed_auths username)) = {''password''}"
  by (simp add: get_allowed_auths_def)

text \<open>
  C9. Each of the eight default decision methods returns the same value at any two tuples of
  arguments, so the result says nothing about the username, the password or the key supplied.
\<close>

theorem default_decisions_constant:
  "check_channel_request kind chanid = check_channel_request kind' chanid' \<and>
   get_allowed_auths username = get_allowed_auths username' \<and>
   check_auth_none username = check_auth_none username' \<and>
   check_auth_password username password = check_auth_password username' password' \<and>
   check_auth_publickey username key = check_auth_publickey username' key' \<and>
   check_channel_pty_request channel term width height pixelwidth pixelheight modes =
     check_channel_pty_request channel' term' width' height' pixelwidth' pixelheight' modes' \<and>
   check_channel_shell_request channel = check_channel_shell_request channel' \<and>
   check_channel_window_change_request channel width height pixelwidth pixelheight =
     check_channel_window_change_request channel' width' height' pixelwidth' pixelheight'"
  by (simp add: check_channel_request_def get_allowed_auths_def check_auth_none_def
      check_auth_password_def check_auth_publickey_def check_channel_pty_request_def
      check_channel_shell_request_def check_channel_window_change_request_def)

subsection \<open>Finalization\<close>

text \<open>
  C2 says that \<^verbatim>\<open>finish_subsystem\<close> runs on every exit path, a fault of the
  log calls included. That fails. With a transport whose \<^verbatim>\<open>_log\<close> raises at level
  ERROR and a body that raises \<open>boom\<close>, the first call of the except clause raises, the
  fault leaves \<^verbatim>\<open>_run\<close>, and \<^verbatim>\<open>close\<close> is never called. With a
  body that raises an object that is no instance of Exception, the except clause is not entered
  and the object leaves \<^verbatim>\<open>_run\<close> the same way.
\<close>

theorem run_skips_finish_counterexample:
  \<open>run (raising_handler (sample_channel (deaf_transport ERROR)) boom) [] =
     (Inl sink_error,
      [Log DEBUG (Str ''Starting handler for subsystem sftp''),
       Log ERROR (Str ''Exception in subsystem handler for "sftp": boom'')]) \<and>
   run (raising_handler (sample_channel sample_transport) string_exception) [] =
     (Inl string_exception, [Log DEBUG (Str ''Starting handler for subsystem sftp'')])\<close>
  by (simp add: run_def prog_defs sample_defs deaf_transport_def)

text \<open>
  C2, as the code has it. \<^verbatim>\<open>finish_subsystem\<close> is executed, on the world
  reached then, and whatever it returns or raises \<^verbatim>\<open>_run\<close> returns normally,
  on these paths: the first log call returns and \<^verbatim>\<open>start_subsystem\<close> returns;
  the first log call returns, \<^verbatim>\<open>start_subsystem\<close> raises an instance of
  Exception and the two log calls of the except clause return; the first log call raises an
  instance of Exception and the two log calls of the except clause return. A log call of the
  except clause returns when its argument was evaluated (\<^verbatim>\<open>str(e)\<close> gave
  \<open>s\<close>, \<^verbatim>\<open>util.tb_strings()\<close> gave \<open>ls\<close>) and the sink took the
  message.
\<close>

theorem run_finalizes:
  "(log_raises (self_transport self) DEBUG (starting_message self) = None \<and>
    start_subsystem self (self_name self) (self_transport self) (self_channel self)
      (w @ [Log DEBUG (starting_message self)]) = (Inr (), w1)
    \<longrightarrow> run self w = (Inr (), snd (finish_subsystem self w1))) \<and>
   (log_raises (self_transport self) DEBUG (starting_message self) = None \<and>
    start_subsystem self (self_name self) (self_transport self) (self_channel self)
      (w @ [Log DEBUG (starting_message self)]) = (Inl e, w1) \<and>
    isinstance_Exception e \<and>
    str e = Inr s \<and>
    log_raises (self_transport self) ERROR (exception_message self s) = None \<and>
    tb_strings e = Inr ls \<and>
    log_raises (self_transport self) ERROR (Lines ls) = None
    \<longrightarrow> run self w =
          (Inr (), snd (finish_subsystem self
             (w1 @ [Log ERROR (exception_message self s), Log ERROR (Lines ls)])))) \<and>
   (log_raises (self_transport self) DEBUG (starting_message self) = Some e \<and>
    isinstance_Exception e \<and>
    str e = Inr s \<and>
    log_raises (self_transport self) ERROR (exception_message self s) = None \<and>
    tb_strings e = Inr ls \<and>
    log_raises (self_transport self) ERROR (Lines ls) = None
    \<longrightarrow> run self w =
          (Inr (), snd (finish_subsystem self
             (w @ [Log DEBUG (starting_message self), Log ERROR (exception_message self s),
                   Log ERROR (Lines ls)]))))"
  by (intro conjI impI; (elim conjE)?) (rule run_returned run_raised run_log_raised; assumption)+

text \<open>
  The three paths taken: a base-class handler on a channel whose \<^verbatim>\<open>close\<close>
  raises (the fault of the finalizer is dropped), a handler whose body raises \<open>boom\<close>,
  and a base-class handler on a transport whose log sink raises at level DEBUG.
\<close>

theorem run_finalizes_witness:
  \<open>run (SubsystemHandler_init (stuck_channel sample_transport) ''sftp'') [] =
     (Inr (), [Log DEBUG (Str ''Starting handler for subsystem sftp''), Close 0]) \<and>
   run (raising_handler (sample_channel sample_transport) boom) [] =
     (Inr (), [Log DEBUG (Str ''Starting handler for subsystem sftp''),
               Log ERROR (Str ''Exception in subsystem handler for "sftp": boom''),
               Log ERROR (Lines [''Traceback (most recent call last):'', ''ValueError: boom'']),
               Close 0]) \<and>
   run (SubsystemHandler_init (sample_channel (deaf_transport DEBUG)) ''sftp'') [] =
     (Inr (), [Log DEBUG (Str ''Starting handler for subsystem sftp''),
               Log ERROR (Str ''Exception in subsystem handler for "sftp": No space left on device''),
               Log ERROR (Lines []),
               Close 0])\<close>
proof -
  let ?a = "SubsystemHandler_init (stuck_channel sample_transport) ''sftp''"
  let ?b = "raising_handler (sample_channel sample_transport) boom"
  let ?c = "SubsystemHandler_init (sample_channel (deaf_transport DEBUG)) ''sftp''"
  let ?w1 = "[Log DEBUG (Str ''Starting handler for subsystem sftp'')]"
  let ?tb = "[''Traceback (most recent call last):'', ''ValueError: boom'']"
  note defs = sample_defs stuck_channel_def deaf_transport_def closed_error_def
    message_defs prog_defs
  have a: "log_raises (self_transport ?a) DEBUG (starting_message ?a) = None \<and>
    start_subsystem ?a (self_name ?a) (self_transport ?a) (self_channel ?a)
      ([] @ [Log DEBUG (starting_message ?a)]) = (Inr (), ?w1)"
    by (simp add: defs)
  have b: "log_raises (self_transport ?b) DEBUG (starting_message ?b) = None \<and>
    start_subsystem ?b (self_name ?b) (self_transport ?b) (self_channel ?b)
      ([] @ [Log DEBUG (starting_message ?b)]) = (Inl boom, ?w1) \<and>
    isinstance_Exception boom \<and>
    str boom = Inr ''boom'' \<and>
    log_raises (self_transport ?b) ERROR (exception_message ?b ''boom'') = None \<and>
    tb_strings boom = Inr ?tb \<and>
    log_raises (self_transport ?b) ERROR (Lines ?tb) = None"
    by (simp add: defs)
  have c: "log_raises (self_transport ?c) DEBUG (starting_message ?c) = Some sink_error \<and>
    isinstance_Exception sink_error \<and>
    str sink_error = Inr ''No space left on device'' \<and>
    log_raises (self_transport ?c) ERROR (exception_message ?c ''No space left on device'') = None \<and>
    tb_strings sink_error = Inr [] \<and>
    log_raises (self_transport ?c) ERROR (Lines []) = None"
    by (simp add: defs)
  from run_finalizes [of ?a "[]" ?w1, THEN conjunct1, rule_format, OF a]
  have ra: "run ?a [] = (Inr (), snd (finish_subsystem ?a ?w1))" .
  from run_finalizes [of ?b "[]" ?w1 boom "''boom''" ?tb, THEN conjunct2, THEN conjunct1, rule_format, OF b]
  have rb: "run ?b [] = (Inr (), snd (finish_subsystem ?b
      (?w1 @ [Log ERROR (exception_message ?b ''boom''), Log ERROR (Lines ?tb)])))" .
  from run_finalizes [of ?c "[]" _ sink_error "''No space left on device''" "[]",
      THEN conjunct2, THEN conjunct2, rule_format, OF c]
  have rc: "run ?c [] = (Inr (), snd (finish_subsystem ?c
      ([] @ [Log DEBUG (starting_message ?c),
             Log ERROR (exception_message ?c ''No space left on device''),
             Log ERROR (Lines [])])))" .
  show ?thesis
    unfolding ra rb rc by (simp add: defs)
qed

subsection \<open>Faults of the body\<close>

text \<open>
  C3 says that every exception the body raises is caught, logged at level ERROR and kept inside
  \<^verbatim>\<open>_run\<close>. Three runs from a world with one earlier entry say otherwise. A string
  exception is not an instance of Exception: the except clause is not entered, nothing is
  logged at level ERROR and the object leaves \<^verbatim>\<open>_run\<close>. An instance of Exception
  whose \<^verbatim>\<open>str\<close> raises: that fault leaves \<^verbatim>\<open>_run\<close> before any
  call at level ERROR. A transport whose log sink raises at level ERROR: the fault of the first
  call leaves \<^verbatim>\<open>_run\<close>.
\<close>

theorem run_exception_escapes_counterexample:
  \<open>run (raising_handler (sample_channel sample_transport) string_exception) [Close 7] =
     (Inl string_exception, [Close 7, Log DEBUG (Str ''Starting handler for subsystem sftp'')]) \<and>
   run (raising_handler (sample_channel sample_transport) unprintable) [Close 7] =
     (Inl unicode_error, [Close 7, Log DEBUG (Str ''Starting handler for subsystem sftp'')]) \<and>
   run (raising_handler (sample_channel (deaf_transport ERROR)) boom) [Close 7] =
     (Inl sink_error,
      [Close 7, Log DEBUG (Str ''Starting handler for subsystem sftp''),
       Log ERROR (Str ''Exception in subsystem handler for "sftp": boom'')])\<close>
  by (simp add: run_def prog_defs sample_defs deaf_transport_def)

text \<open>
  C3, as the code has it. Let \<^verbatim>\<open>start_subsystem\<close> raise an instance of
  Exception for which \<^verbatim>\<open>str(e)\<close> returns \<open>s\<close>,
  \<^verbatim>\<open>util.tb_strings()\<close> returns \<open>ls\<close> and the two log calls of the except
  clause return. Then the exception is caught in \<^verbatim>\<open>_run\<close>: two entries at level
  ERROR follow the world \<open>w1\<close> in which the body exited, the first made of the subsystem's
  name and \<open>s\<close>; the finalizer runs after them; and \<^verbatim>\<open>_run\<close> returns
  normally, whatever the finalizer does.
\<close>

theorem run_catches_exception:
  assumes "log_raises (self_transport self) DEBUG
             (Str (''Starting handler for subsystem '' @ self_name self)) = None"
      and "start_subsystem self (self_name self) (self_transport self) (self_channel self)
             (w @ [Log DEBUG (Str (''Starting handler for subsystem '' @ self_name self))]) = (Inl e, w1)"
      and "isinstance_Exception e"
      and "str e = Inr s"
      and \<open>log_raises (self_transport self) ERROR
             (Str (''Exception in subsystem handler for "'' @ self_name self @ ''": '' @ s)) = None\<close>
      and "tb_strings e = Inr ls"
      and "log_raises (self_transport self) ERROR (Lines ls) = None"
  shows \<open>fst (run self w) = Inr () \<and>
         snd (run self w) =
           snd (finish_subsystem self
             (w1 @ [Log ERROR (Str (''Exception in subsystem handler for "'' @ self_name self @ ''": '' @ s)),
                    Log ERROR (Lines ls)]))\<close>
proof -
  have \<open>run self w = (Inr (), snd (finish_subsystem self (w1 @
      [Log ERROR (Str (''Exception in subsystem handler for "'' @ self_name self @ ''": '' @ s)),
       Log ERROR (Lines ls)])))\<close>
    by (rule run_raised [unfolded message_defs, OF assms])
  then show ?thesis by simp
qed

text \<open>A body that logs \<^verbatim>\<open>playing\<close> and raises \<open>boom\<close>.\<close>

theorem run_catches_exception_witness:
  \<open>isinstance_Exception boom \<and>
   str boom = Inr ''boom'' \<and>
   fst (run (logging_handler (sample_channel sample_transport)) []) = Inr () \<and>
   snd (run (logging_handler (sample_channel sample_transport)) []) =
     [Log DEBUG (Str ''Starting handler for subsystem mp3''),
      Log DEBUG (Str ''playing''),
      Log ERROR (Str ''Exception in subsystem handler for "mp3": boom''),
      Log ERROR (Lines [''Traceback (most recent call last):'', ''ValueError: boom''])]\<close>
proof -
  let ?h = "logging_handler (sample_channel sample_transport)"
  let ?w1 = "[Log DEBUG (Str ''Starting handler for subsystem mp3''), Log DEBUG (Str ''playing'')]"
  let ?tb = "[''Traceback (most recent call last):'', ''ValueError: boom'']"
  note defs = sample_defs logging_handler_def prog_defs
  have h1: "log_raises (self_transport ?h) DEBUG
             (Str (''Starting handler for subsystem '' @ self_name ?h)) = None"
    by (simp add: defs)
  have h2: "start_subsystem ?h (self_name ?h) (self_transport ?h) (self_channel ?h)
             ([] @ [Log DEBUG (Str (''Starting handler for subsystem '' @ self_name ?h))]) = (Inl boom, ?w1)"
    by (simp add: defs)
  have h3: "isinstance_Exception boom" by (simp add: boom_def)
  have h4: "str boom = Inr ''boom''" by (simp add: boom_def)
  have h5: \<open>log_raises (self_transport ?h) ERROR
             (Str (''Exception in subsystem handler for "'' @ self_name ?h @ ''": '' @ ''boom'')) = None\<close>
    by (simp add: defs)
  have h6: "tb_strings boom = Inr ?tb" by (simp add: boom_def)
  have h7: "log_raises (self_transport ?h) ERROR (Lines ?tb) = None"
    by (simp add: defs)
  from run_catches_exception [OF h1 h2 h3 h4 h5 h6 h7] h3 h4 show ?thesis
    by (simp add: defs)
qed

text \<open>
  C10 says that a raising body is followed by exactly two entries at level ERROR and then the
  finalizer. Three runs from a world with one earlier log entry say otherwise. After a string
  exception, and after an instance of Exception whose \<^verbatim>\<open>str\<close> raises, there is
  no entry at level ERROR and no call of \<^verbatim>\<open>close\<close>. On a transport whose log
  sink raises at level ERROR there is one call at that level and no call of
  \<^verbatim>\<open>close\<close>.
\<close>

theorem run_error_entries_counterexample:
  \<open>run (raising_handler (sample_channel sample_transport) string_exception)
       [Log DEBUG (Str ''connected'')] =
     (Inl string_exception,
      [Log DEBUG (Str ''connected''), Log DEBUG (Str ''Starting handler for subsystem sftp'')]) \<and>
   run (raising_handler (sample_channel sample_transport) unprintable)
       [Log DEBUG (Str ''connected'')] =
     (Inl unicode_error,
      [Log DEBUG (Str ''connected''), Log DEBUG (Str ''Starting handler for subsystem sftp'')]) \<and>
   run (raising_handler (sample_channel (deaf_transport ERROR)) boom)
       [Log DEBUG (Str ''connected'')] =
     (Inl sink_error,
      [Log DEBUG (Str ''connected''), Log DEBUG (Str ''Starting handler for subsystem sftp''),
       Log ERROR (Str ''Exception in subsystem handler for "sftp": boom'')])\<close>
  by (simp add: run_def prog_defs sample_defs deaf_transport_def)

text \<open>
  C10, as the code has it. When the first log call returns, the body is called on the world
  whose last entry is the DEBUG entry \<^verbatim>\<open>Starting handler for subsystem <name>\<close>.
  When the body returns, the finalizer runs on the world the body left. When it raises an
  instance of Exception for which \<^verbatim>\<open>str(e)\<close> returns \<open>s\<close>,
  \<^verbatim>\<open>util.tb_strings()\<close> returns \<open>ls\<close> and the two log calls of the except
  clause return, exactly two entries at level ERROR are added to the world the body left, the
  first with the name and \<open>s\<close>, the second with the traceback lines, and the finalizer
  runs after them.
\<close>

theorem run_log_entries:
  assumes "log_raises (self_transport self) DEBUG
             (Str (''Starting handler for subsystem '' @ self_name self)) = None"
  shows \<open>(start_subsystem self (self_name self) (self_transport self) (self_channel self)
            (w @ [Log DEBUG (Str (''Starting handler for subsystem '' @ self_name self))]) = (Inr (), w1)
          \<longrightarrow> run self w = (Inr (), snd (finish_subsystem self w1))) \<and>
         (start_subsystem self (self_name self) (self_transport self) (self_channel self)
            (w @ [Log DEBUG (Str (''Starting handler for subsystem '' @ self_name self))]) = (Inl e, w1) \<and>
          isinstance_Exception e \<and>
          str e = Inr s \<and>
          log_raises (self_transport self) ERROR
            (Str (''Exception in subsystem handler for "'' @ self_name self @ ''": '' @ s)) = None \<and>
          tb_strings e = Inr ls \<and>
          log_raises (self_transport self) ERROR (Lines ls) = None
          \<longrightarrow> run self w =
                (Inr (), snd (finish_subsystem self
                   (w1 @ [Log ERROR (Str (''Exception in subsystem handler for "'' @ self_name self @ ''": '' @ s)),
                          Log ERROR (Lines ls)]))))\<close>
  using assms
  by (intro conjI impI; (elim conjE)?)
     (rule run_returned [unfolded message_defs] run_raised [unfolded message_defs]; assumption)+

text \<open>The base class and a raising handler, started in a world that already has an entry.\<close>

theorem run_log_entries_witness:
  \<open>run (SubsystemHandler_init (sample_channel sample_transport) ''sftp'') [Close 7] =
     (Inr (), [Close 7, Log DEBUG (Str ''Starting handler for subsystem sftp''), Close 0]) \<and>
   run (raising_handler (sample_channel sample_transport) boom) [Close 7] =
     (Inr (), [Close 7,
               Log DEBUG (Str ''Starting handler for subsystem sftp''),
               Log ERROR (Str ''Exception in subsystem handler for "sftp": boom''),
               Log ERROR (Lines [''Traceback (most recent call last):'', ''ValueError: boom'']),
               Close 0])\<close>
proof -
  let ?g = "SubsystemHandler_init (sample_channel sample_transport) ''sftp''"
  let ?h = "raising_handler (sample_channel sample_transport) boom"
  let ?w1 = "[Close 7, Log DEBUG (Str ''Starting handler for subsystem sftp'')]"
  let ?tb = "[''Traceback (most recent call last):'', ''ValueError: boom'']"
  note defs = sample_defs prog_defs
  have g1: "log_raises (self_transport ?g) DEBUG
              (Str (''Starting handler for subsystem '' @ self_name ?g)) = None"
    by (simp add: defs)
  have g2: "start_subsystem ?g (self_name ?g) (self_transport ?g) (self_channel ?g)
             ([Close 7] @ [Log DEBUG (Str (''Starting handler for subsystem '' @ self_name ?g))]) = (Inr (), ?w1)"
    by (simp add: defs)
  have h1: "log_raises (self_transport ?h) DEBUG
              (Str (''Starting handler for subsystem '' @ self_name ?h)) = None"
    by (simp add: defs)
  have h2: \<open>start_subsystem ?h (self_name ?h) (self_transport ?h) (self_channel ?h)
             ([Close 7] @ [Log DEBUG (Str (''Starting handler for subsystem '' @ self_name ?h))]) = (Inl boom, ?w1) \<and>
            isinstance_Exception boom \<and>
            str boom = Inr ''boom'' \<and>
            log_raises (self_transport ?h) ERROR
              (Str (''Exception in subsystem handler for "'' @ self_name ?h @ ''": '' @ ''boom'')) = None \<and>
            tb_strings boom = Inr ?tb \<and>
            log_raises (self_transport ?h) ERROR (Lines ?tb) = None\<close>
    by (simp add: defs)
  from run_log_entries [OF g1, of "[Close 7]" ?w1, THEN conjunct1, rule_format, OF g2]
  have rg: "run ?g [Close 7] = (Inr (), snd (finish_subsystem ?g ?w1))" .
  from run_log_entries [OF h1, of "[Close 7]" ?w1 boom "''boom''" ?tb, THEN conjunct2, rule_format, OF h2]
  have rh: \<open>run ?h [Close 7] = (Inr (), snd (finish_subsystem ?h
      (?w1 @ [Log ERROR (Str (''Exception in subsystem handler for "'' @ self_name ?h @ ''": '' @ ''boom'')),
              Log ERROR (Lines ?tb)])))\<close> .
  show ?thesis unfolding rg rh by (simp add: defs)
qed

subsection \<open>The subsystem request\<close>



text \<open>
  C8. A fault raised by the registry lookup, by the call of the registered class or by
  \<^verbatim>\<open>handler.start()\<close> is the outcome of
  \<^verbatim>\<open>check_channel_subsystem_request\<close>: it reaches the caller, and no boolean
  is returned in its place.
\<close>

theorem check_channel_subsystem_request_propagates:
  "(get_subsystem_handler (get_transport channel) name = Inl f
      \<longrightarrow> check_channel_subsystem_request py channel name w = (Inl f, w)) \<and>
   (get_subsystem_handler (get_transport channel) name = Inr (Some cls, larg, kwarg) \<and>
    call_class py cls channel name larg kwarg w = (Inl f, w1)
      \<longrightarrow> check_channel_subsystem_request py channel name w = (Inl f, w1)) \<and>
   (get_subsystem_handler (get_transport channel) name = Inr (Some cls, larg, kwarg) \<and>
    call_class py cls channel name larg kwarg w = (Inr handler, w1) \<and>
    thread_start py handler w1 = (Inl f, w2)
      \<longrightarrow> check_channel_subsystem_request py channel name w = (Inl f, w2))"
  by (simp add: check_channel_subsystem_request_def returns_def and_then_def)

text \<open>A lookup that raises, a constructor that rejects its arguments, a thread that cannot start.\<close>

theorem check_channel_subsystem_request_propagates_witness:
  "check_channel_subsystem_request sample_python (sample_channel sample_transport) ''locked'' [] =
     (Inl lookup_error, []) \<and>
   check_channel_subsystem_request sample_python (sample_channel sample_transport) ''mp3'' [] =
     (Inl type_error, []) \<and>
   check_channel_subsystem_request sample_python (sample_channel sample_transport) ''nothread'' [] =
     (Inl thread_error, [])"
proof -
  let ?c = "sample_channel sample_transport"
  let ?h = "SubsystemHandler_init ?c ''nothread''"
  note defs = sample_defs sample_python_def prog_defs
  have a: "get_subsystem_handler (get_transport ?c) ''locked'' = Inl lookup_error"
    by (simp add: defs)
  have b: "get_subsystem_handler (get_transport ?c) ''mp3'' =
             Inr (Some ''MP3Handler'', [PyInt 3], [(''rate'', PyInt 44100)]) \<and>
           call_class sample_python ''MP3Handler'' ?c ''mp3'' [PyInt 3] [(''rate'', PyInt 44100)] [] =
             (Inl type_error, [])"
    by (simp add: defs)
  have c: "get_subsystem_handler (get_transport ?c) ''nothread'' = Inr (Some ''SFTPHandler'', [], []) \<and>
           call_class sample_python ''SFTPHandler'' ?c ''nothread'' [] [] [] = (Inr ?h, []) \<and>
           thread_start sample_python ?h [] = (Inl thread_error, [])"
    by (simp add: defs)
  from check_channel_subsystem_request_propagates [THEN conjunct1, rule_format, OF a]
       check_channel_subsystem_request_propagates [THEN conjunct2, THEN conjunct1, rule_format, OF b]
       check_channel_subsystem_request_propagates [THEN conjunct2, THEN conjunct2, rule_format, OF c]
  show ?thesis by simp
qed

end
